theory Spec2Isabelle
  imports Complex_Main "HOL-Library.Sublist"
begin

section \<open>The opportunity scanner of app.py (class AbsoluteBestScanner)\<close>

text \<open>
  Numbers are modelled in exact arithmetic: a finite float is a \<open>real\<close>. The only
  non-finite values the scanner can produce from finite bars come from numpy's division
  by zero, which does not raise but yields \<open>inf\<close>, \<open>-inf\<close> or \<open>nan\<close>; these are the
  extra constructors of \<open>float64\<close>.
\<close>

subsection \<open>Data\<close>

datatype error = KeyError string | IndexError | DataEngineError

datatype float64 = Fin real | PInf | NInf | NaN

text \<open>
  A pandas DataFrame as the scanner reads it: its column labels and its rows. Only the
  columns \<open>Close\<close> and \<open>Volume\<close> are ever read; a field of a row whose label is not among
  \<open>columns\<close> is never looked at.
\<close>

record bar =
  Close :: real
  Volume :: real

record dataframe =
  columns :: "string list"
  rows :: "bar list"

record trade_plan =
  direction :: string
  entry :: real
  stop_loss :: real
  target :: real
  risk_reward :: real
  timeframe :: string
  position_size :: string
  confidence :: string

text \<open>
  The analysis dictionary. The early return of \<open>_analyze_stock\<close> on an empty frame has
  the keys \<open>ticker\<close> and \<open>score\<close> only, so the remaining keys are grouped and optional.
\<close>

record analysis_fields =
  price :: real
  price_change :: float64
  trend :: string
  momentum_score :: real
  volume_score :: real
  trend_score :: real

record analysis =
  ticker :: string
  score :: real
  details :: "analysis_fields option"
  plan :: "trade_plan option"

text \<open>
  The scanner object: the data engine (a fetch returns a frame, \<open>None\<close>, or raises) and
  the priority watchlist.
\<close>

record scanner =
  data_engine :: "string \<Rightarrow> error + dataframe option"
  priority_tickers :: "string list"

subsection \<open>pandas, numpy and Python primitives\<close>

definition len :: "dataframe \<Rightarrow> nat" where
  "len data = length (rows data)"

text \<open>\<open>data.empty\<close>: some axis has length 0.\<close>

definition empty_df :: "dataframe \<Rightarrow> bool" where
  "empty_df data = (rows data = [] \<or> columns data = [])"

text \<open>\<open>data['Close']\<close> and \<open>data['Volume']\<close>: KeyError when the label is missing.\<close>

definition col_Close :: "dataframe \<Rightarrow> error + real list" where
  "col_Close data =
     (if ''Close'' \<in> set (columns data) then Inr (map Close (rows data))
      else Inl (KeyError ''Close''))"

definition col_Volume :: "dataframe \<Rightarrow> error + real list" where
  "col_Volume data =
     (if ''Volume'' \<in> set (columns data) then Inr (map Volume (rows data))
      else Inl (KeyError ''Volume''))"

text \<open>\<open>s.iloc[i]\<close>, with Python's negative positions; out of range raises.\<close>

definition iloc :: "real list \<Rightarrow> int \<Rightarrow> error + real" where
  "iloc s i =
     (if 0 \<le> i \<and> i < int (length s) then Inr (s ! nat i)
      else if i < 0 \<and> - i \<le> int (length s) then Inr (s ! nat (int (length s) + i))
      else Inl IndexError)"

text \<open>\<open>s.iloc[-k:]\<close> and \<open>a[-k:]\<close>: the last \<open>k\<close> entries, all of them when there are fewer.\<close>

definition tail :: "nat \<Rightarrow> real list \<Rightarrow> real list" where
  "tail k s = drop (length s - k) s"

text \<open>
  The mean of a slice. The scanner takes it only behind the guards \<open>len(data) < 10\<close> and
  \<open>len(data) < 20\<close>, of a slice that is not empty.
\<close>

definition mean :: "real list \<Rightarrow> real" where
  "mean s = sum_list s / real (length s)"

text \<open>numpy's scalar division: no exception on a zero divisor.\<close>

definition np_div :: "real \<Rightarrow> real \<Rightarrow> float64" where
  "np_div a b =
     (if b \<noteq> 0 then Fin (a / b)
      else if a > 0 then PInf else if a < 0 then NInf else NaN)"

text \<open>\<open>x * c\<close> for a constant \<open>c > 0\<close> (the scanner multiplies by 100 and by 2).\<close>

fun times_pos :: "float64 \<Rightarrow> real \<Rightarrow> float64" where
  "times_pos (Fin r) c = Fin (r * c)"
| "times_pos PInf c = PInf"
| "times_pos NInf c = NInf"
| "times_pos NaN c = NaN"

text \<open>\<open>c + x\<close> for a finite constant \<open>c\<close>.\<close>

fun plus_const :: "real \<Rightarrow> float64 \<Rightarrow> float64" where
  "plus_const c (Fin r) = Fin (c + r)"
| "plus_const c PInf = PInf"
| "plus_const c NInf = NInf"
| "plus_const c NaN = NaN"

text \<open>\<open>x > 0\<close>: every comparison with nan is false.\<close>

fun gt_zero :: "float64 \<Rightarrow> bool" where
  "gt_zero (Fin r) = (r > 0)"
| "gt_zero PInf = True"
| "gt_zero NInf = False"
| "gt_zero NaN = False"

text \<open>
  \<open>max(0, min(100, x))\<close>. Python's \<open>min(100, x)\<close> is \<open>x\<close> when \<open>x < 100\<close> and 100
  otherwise, so it is 100 on \<open>inf\<close> and on \<open>nan\<close> and \<open>-inf\<close> on \<open>-inf\<close>; \<open>max(0, y)\<close> is
  \<open>y\<close> when \<open>y > 0\<close> and 0 otherwise.
\<close>

fun clamp_0_100 :: "float64 \<Rightarrow> real" where
  "clamp_0_100 (Fin r) = max 0 (min 100 r)"
| "clamp_0_100 PInf = 100"
| "clamp_0_100 NInf = 0"
| "clamp_0_100 NaN = 100"

text \<open>
  \<open>round(x, 2)\<close> on a float: the nearest multiple of 0.01, a tie going to the even
  one.
\<close>

definition round_half_even :: "real \<Rightarrow> int" where
  "round_half_even x =
     (let f = \<lfloor>x\<rfloor>; d = x - of_int f in
      if d < 1 / 2 then f
      else if d > 1 / 2 then f + 1
      else if even f then f else f + 1)"

definition round2 :: "real \<Rightarrow> real" where
  "round2 x = of_int (round_half_even (x * 100)) / 100"

text \<open>\<open>xs[:k]\<close>: a negative \<open>k\<close> counts from the end.\<close>

definition slice_to :: "'a list \<Rightarrow> int \<Rightarrow> 'a list" where
  "slice_to xs k =
     (if 0 \<le> k then take (nat k) xs else take (nat (int (length xs) + k)) xs)"

subsection \<open>The sub-scores\<close>

text \<open>Sequencing: a raised exception skips the rest of the function.\<close>

definition and_then :: "error + 'a \<Rightarrow> ('a \<Rightarrow> error + 'b) \<Rightarrow> error + 'b" where
  "and_then r f = (case r of Inl e \<Rightarrow> Inl e | Inr v \<Rightarrow> f v)"

definition recent_change_of :: "dataframe \<Rightarrow> error + float64" where
  "recent_change_of data =
     (if len data \<ge> 5 then
        and_then (col_Close data) (\<lambda>close.
        and_then (iloc close (- 1)) (\<lambda>c1.
        and_then (iloc close (- 5)) (\<lambda>c5.
          Inr (times_pos (np_div (c1 - c5) c5) 100))))
      else Inr (Fin 0))"

definition calculate_momentum :: "dataframe \<Rightarrow> error + real" where
  "calculate_momentum data =
     (if len data < 10 then Inr 50
      else
        and_then (recent_change_of data) (\<lambda>recent_change.
          let momentum = plus_const 50 (times_pos recent_change 2)
          in Inr (clamp_0_100 momentum)))"

definition volume_ratio_score :: "real \<Rightarrow> real" where
  "volume_ratio_score volume_ratio =
     (if volume_ratio > 2 then 90
      else if volume_ratio > 1.5 then 75
      else if volume_ratio > 1 then 60
      else 40)"

definition calculate_volume :: "dataframe \<Rightarrow> error + real" where
  "calculate_volume data =
     (if len data < 10 \<or> ''Volume'' \<notin> set (columns data) then Inr 50
      else
        and_then (col_Volume data) (\<lambda>volume.
          let recent_volume = mean (tail 5 volume);
              avg_volume = (if len data \<ge> 20 then mean (tail 20 volume) else recent_volume)
          in if avg_volume = 0 then Inr 50
             else Inr (volume_ratio_score (recent_volume / avg_volume))))"

definition calculate_trend :: "dataframe \<Rightarrow> error + real" where
  "calculate_trend data =
     (if len data < 20 then Inr 50
      else
        and_then (col_Close data) (\<lambda>prices.
          let ma_short = mean (tail 10 prices);
              ma_long = mean (tail 20 prices)
          in and_then (iloc prices (- 1)) (\<lambda>p1.
               if p1 > ma_short \<and> ma_short > ma_long then Inr 85
               else if p1 < ma_short \<and> ma_short < ma_long then Inr 15
               else Inr 50)))"

subsection \<open>The analysis of one ticker\<close>

definition current_price_of :: "dataframe \<Rightarrow> error + real" where
  "current_price_of data =
     (if ''Close'' \<in> set (columns data) then
        and_then (col_Close data) (\<lambda>close. iloc close (- 1))
      else Inr 100)"

text \<open>The block "Determine trend": the percent change of the last close and the label.\<close>

definition determine_trend :: "dataframe \<Rightarrow> error + float64 \<times> string" where
  "determine_trend data =
     (if len data \<ge> 2 then
        and_then (col_Close data) (\<lambda>close.
        and_then (iloc close (- 1)) (\<lambda>c1.
        and_then (iloc close (- 2)) (\<lambda>c2.
          let pc = times_pos (np_div (c1 - c2) c2) 100
          in Inr (pc, if gt_zero pc then ''BULLISH'' else ''BEARISH''))))
      else Inr (Fin 0, ''NEUTRAL''))"

definition analyze_stock :: "string \<Rightarrow> dataframe \<Rightarrow> error + analysis" where
  "analyze_stock tk data =
     (if empty_df data then Inr \<lparr>ticker = tk, score = 0, details = None, plan = None\<rparr>
      else
        and_then (current_price_of data) (\<lambda>current_price.
        and_then (calculate_momentum data) (\<lambda>m.
        and_then (calculate_volume data) (\<lambda>v.
        and_then (calculate_trend data) (\<lambda>t.
          let total_score = m * 0.4 + v * 0.3 + t * 0.3 in
          and_then (determine_trend data) (\<lambda>(pc, tr).
            Inr \<lparr>ticker = tk, score = total_score,
                 details = Some \<lparr>price = current_price, price_change = pc, trend = tr,
                                  momentum_score = m, volume_score = v, trend_score = t\<rparr>,
                 plan = None\<rparr>))))))"

subsection \<open>The trade plan\<close>

text \<open>The first \<open>if\<close>: direction, entry, stop and target, before rounding.\<close>

definition plan_levels :: "analysis_fields \<Rightarrow> string \<times> real \<times> real \<times> real" where
  "plan_levels f =
     (let current_price = price f in
      if trend f = ''BULLISH''
      then (''LONG'', current_price, current_price * 0.93, current_price * 1.21)
      else (''SHORT'', current_price, current_price * 1.07, current_price * 0.79))"

text \<open>The second \<open>if\<close>: confidence and position size.\<close>

definition confidence_level :: "real \<Rightarrow> string \<times> string" where
  "confidence_level sc =
     (if sc \<ge> 85 then (''VERY HIGH'', ''10-15%'')
      else if sc \<ge> 75 then (''HIGH'', ''7-10%'')
      else (''MODERATE'', ''5-7%''))"

text \<open>
  The reads \<open>analysis['price']\<close> and \<open>analysis['trend']\<close> raise KeyError on the
  two-key dictionary of an empty frame.
\<close>

definition generate_trade_plan :: "analysis \<Rightarrow> error + trade_plan" where
  "generate_trade_plan a =
     (case details a of
        None \<Rightarrow> Inl (KeyError ''price'')
      | Some f \<Rightarrow>
          (case plan_levels f of (dir, ent, stop, tgt) \<Rightarrow>
             let risk = \<bar>ent - stop\<bar>;
                 reward = \<bar>tgt - ent\<bar>;
                 rr = (if risk > 0 then reward / risk else 0)
             in (case confidence_level (score a) of (conf, pos) \<Rightarrow>
                   Inr \<lparr>direction = dir, entry = round2 ent, stop_loss = round2 stop,
                        target = round2 tgt, risk_reward = round2 rr,
                        timeframe = ''3-10 days'', position_size = pos,
                        confidence = conf\<rparr>)))"

subsection \<open>The scan\<close>

text \<open>
  The body of the \<open>try\<close> block for one ticker: the new value of \<open>results\<close>, or the
  exception raised. The append is the last statement, so an exception leaves \<open>results\<close>
  as it was. \<open>time.sleep\<close> has no effect on the result and is left out.
\<close>

definition scan_ticker :: "scanner \<Rightarrow> string \<Rightarrow> analysis list \<Rightarrow> error + analysis list" where
  "scan_ticker self tk results =
     (case data_engine self tk of
        Inl e \<Rightarrow> Inl e
      | Inr fetched \<Rightarrow>
          (case fetched of
             None \<Rightarrow> Inr results
           | Some data \<Rightarrow>
               if empty_df data then Inr results
               else
                 (case analyze_stock tk data of
                    Inl e \<Rightarrow> Inl e
                  | Inr a \<Rightarrow>
                      if score a \<ge> 75 then
                        (case generate_trade_plan a of
                           Inl e \<Rightarrow> Inl e
                         | Inr p \<Rightarrow> Inr (results @ [a\<lparr>plan := Some p\<rparr>]))
                      else Inr results)))"

text \<open>The \<open>for\<close> loop; \<open>except Exception: continue\<close> goes on with the next ticker.\<close>

fun scan_loop :: "scanner \<Rightarrow> string list \<Rightarrow> analysis list \<Rightarrow> analysis list" where
  "scan_loop self [] results = results"
| "scan_loop self (tk # rest) results =
     (case scan_ticker self tk results of
        Inl e \<Rightarrow> scan_loop self rest results
      | Inr results' \<Rightarrow> scan_loop self rest results')"

text \<open>
  \<open>results.sort(key=lambda x: x['score'], reverse=True)\<close> is a stable sort, descending.
  No statement outside the \<open>try\<close> block can raise, so the scan always returns.
\<close>

definition scan_best_opportunities :: "scanner \<Rightarrow> int \<Rightarrow> error + analysis list" where
  "scan_best_opportunities self max_results =
     (let results = scan_loop self (take 15 (priority_tickers self)) [];
          sorted_results = sort_key (\<lambda>x. - score x) results
      in Inr (slice_to sorted_results max_results))"

text \<open>
  \<open>__init__\<close>: the scanner keeps the data engine it is given and the fixed priority
  watchlist of 21 tickers.
\<close>

definition init_scanner :: "(string \<Rightarrow> error + dataframe option) \<Rightarrow> scanner" where
  "init_scanner engine =
     \<lparr>data_engine = engine,
      priority_tickers =
        [''NVDA'', ''AAPL'', ''MSFT'', ''GOOGL'', ''AMZN'', ''META'', ''TSLA'',
         ''AMD'', ''AVGO'', ''TSM'', ''INTC'', ''QCOM'', ''COIN'', ''PLTR'',
         ''SNOW'', ''CRWD'', ''NET'', ''DDOG'', ''SQ'', ''SHOP'', ''UBER'']\<rparr>"

section \<open>Notions used to state the properties\<close>

text \<open>
  The close and volume series of a frame, the entry \<open>k\<close> places from the end
  (\<open>k = 1\<close> is the latest bar, so that \<open>from_end s 5\<close> is \<open>s.iloc[-5]\<close>), the percent
  change from a prior value to a later one, and the simple mean of the last \<open>k\<close>
  entries, written as a sum over positions.
\<close>

definition closes :: "dataframe \<Rightarrow> real list" where
  "closes data = map Close (rows data)"

definition volumes :: "dataframe \<Rightarrow> real list" where
  "volumes data = map Volume (rows data)"

definition from_end :: "real list \<Rightarrow> nat \<Rightarrow> real" where
  "from_end xs k = xs ! (length xs - k)"

definition percent_change :: "real \<Rightarrow> real \<Rightarrow> real" where
  "percent_change latest prior = (latest - prior) / prior * 100"

definition trailing_mean :: "nat \<Rightarrow> real list \<Rightarrow> real" where
  "trailing_mean k xs = (\<Sum>i<k. xs ! (length xs - 1 - i)) / real k"

text \<open>
  The momentum score in the words of the claim: 50 + 2 \<times> the percent change between the
  latest close and the close 5 bars prior, the bar five places before the latest one
  (\<open>s.iloc[-6]\<close>), clamped to [0, 100].
\<close>

definition momentum_as_claimed :: "real list \<Rightarrow> real" where
  "momentum_as_claimed s =
     max 0 (min 100 (50 + 2 * percent_change (from_end s 1) (from_end s 6)))"

text \<open>
  A fetch has failed when the data engine raises, returns \<open>None\<close> or returns an empty
  frame. \<open>collected\<close> is the list \<open>results\<close> when the loop ends, before sorting;
  \<open>contribution\<close> is what one ticker, taken alone, appends.
\<close>

definition fetch_failed :: "scanner \<Rightarrow> string \<Rightarrow> bool" where
  "fetch_failed self tk =
     (case data_engine self tk of
        Inl e \<Rightarrow> True
      | Inr fetched \<Rightarrow> (case fetched of None \<Rightarrow> True | Some data \<Rightarrow> empty_df data))"

definition collected :: "scanner \<Rightarrow> analysis list" where
  "collected self = scan_loop self (take 15 (priority_tickers self)) []"

definition contribution :: "scanner \<Rightarrow> string \<Rightarrow> analysis list" where
  "contribution self tk = (case scan_ticker self tk [] of Inl e \<Rightarrow> [] | Inr r \<Rightarrow> r)"

section \<open>Concrete inputs\<close>

definition example_analysis :: "real \<Rightarrow> string \<Rightarrow> real \<Rightarrow> analysis" where
  "example_analysis pr tr sc =
     \<lparr>ticker = ''NVDA'', score = sc,
      details = Some \<lparr>price = pr, price_change = Fin 0, trend = tr,
                       momentum_score = 50, volume_score = 50, trend_score = 50\<rparr>,
      plan = None\<rparr>"

definition example_frame :: "(real \<times> real) list \<Rightarrow> dataframe" where
  "example_frame cv =
     \<lparr>columns = [''Open'', ''High'', ''Low'', ''Close'', ''Volume''],
      rows = map (\<lambda>(c, v). \<lparr>Close = c, Volume = v\<rparr>) cv\<rparr>"

text \<open>
  Bars as pairs (close, volume). \<open>rising_frame\<close>: 20 rising closes and a volume surge in
  the last five bars; \<open>steady_frame\<close>: the same closes on flat volume.
\<close>

definition rising_frame :: dataframe where
  "rising_frame = example_frame
     [(1, 1), (2, 1), (3, 1), (4, 1), (5, 1), (6, 1), (7, 1), (8, 1), (9, 1), (10, 1),
      (11, 1), (12, 1), (13, 1), (14, 1), (15, 1), (16, 10), (17, 10), (18, 10), (19, 10),
      (20, 10)]"

definition steady_frame :: dataframe where
  "steady_frame = example_frame
     [(1, 1), (2, 1), (3, 1), (4, 1), (5, 1), (6, 1), (7, 1), (8, 1), (9, 1), (10, 1),
      (11, 1), (12, 1), (13, 1), (14, 1), (15, 1), (16, 1), (17, 1), (18, 1), (19, 1),
      (20, 1)]"

definition falling_frame :: dataframe where
  "falling_frame = example_frame
     [(20, 1), (19, 1), (18, 1), (17, 1), (16, 1), (15, 1), (14, 1), (13, 1), (12, 1),
      (11, 1), (10, 1), (9, 1), (8, 1), (7, 1), (6, 1), (5, 1), (4, 1), (3, 1), (2, 1),
      (1, 1)]"

definition mixed_frame :: dataframe where
  "mixed_frame = example_frame
     [(20, 1), (19, 1), (18, 1), (17, 1), (16, 1), (15, 1), (14, 1), (13, 1), (12, 1),
      (11, 1), (10, 1), (9, 1), (8, 1), (7, 1), (6, 1), (5, 1), (4, 1), (3, 1), (2, 1),
      (9, 1)]"

definition short_frame :: dataframe where
  "short_frame = example_frame [(10, 5), (11, 5), (12, 5)]"

definition lookback_frame :: dataframe where
  "lookback_frame = example_frame
     [(100, 2), (100, 2), (100, 2), (100, 2), (50, 2), (100, 2), (100, 2), (100, 2),
      (100, 2), (110, 2)]"

definition no_close_frame :: dataframe where
  "no_close_frame =
     \<lparr>columns = [''Open'', ''Volume''],
      rows = [\<lparr>Close = 0, Volume = 5\<rparr>, \<lparr>Close = 0, Volume = 6\<rparr>]\<rparr>"

definition flat_volume_frame :: dataframe where
  "flat_volume_frame = example_frame
     [(10, 2), (10, 2), (10, 2), (10, 2), (10, 2), (10, 2), (10, 2), (10, 2), (10, 2),
      (10, 2), (10, 2), (10, 2)]"

definition zero_volume_frame :: dataframe where
  "zero_volume_frame = example_frame
     [(10, 0), (10, 0), (10, 0), (10, 0), (10, 0), (10, 0), (10, 0), (10, 0), (10, 0),
      (10, 0), (10, 0), (10, 0)]"

definition zero_base_frame :: dataframe where
  "zero_base_frame = example_frame
     [(1, 2), (1, 2), (1, 2), (1, 2), (1, 2), (0, 2), (1, 2), (1, 2), (1, 2), (3, 2)]"

definition close_only_frame :: dataframe where
  "close_only_frame =
     \<lparr>columns = [''Close''], rows = replicate 12 \<lparr>Close = 10, Volume = 0\<rparr>\<rparr>"

definition no_bars_frame :: dataframe where
  "no_bars_frame = example_frame []"

text \<open>
  A data engine that raises for one ticker, returns \<open>None\<close> for another and an empty
  frame for a third, and scanners over it.
\<close>

definition example_engine :: "string \<Rightarrow> error + dataframe option" where
  "example_engine tk =
     (if tk = ''BAD'' then Inl DataEngineError
      else if tk = ''NONE'' then Inr None
      else if tk = ''EMPTY'' then Inr (Some no_bars_frame)
      else if tk = ''WEAK'' then Inr (Some short_frame)
      else if tk = ''TSLA'' then Inr (Some steady_frame)
      else Inr (Some rising_frame))"

definition sixteenth_only_engine :: "string \<Rightarrow> error + dataframe option" where
  "sixteenth_only_engine tk =
     (if tk = ''CRWD'' then Inr (Some rising_frame) else Inr (Some short_frame))"

definition example_scanner :: scanner where
  "example_scanner =
     \<lparr>data_engine = example_engine,
      priority_tickers = [''TSLA'', ''BAD'', ''NVDA'', ''NONE'', ''AAPL'', ''EMPTY'', ''MSFT'',
                          ''WEAK'', ''AMZN'']\<rparr>"

definition three_ticker_scanner :: scanner where
  "three_ticker_scanner =
     \<lparr>data_engine = example_engine, priority_tickers = [''NVDA'', ''BAD'', ''AAPL'']\<rparr>"

definition empty_universe_scanner :: scanner where
  "empty_universe_scanner = \<lparr>data_engine = example_engine, priority_tickers = []\<rparr>"

text \<open>
  The analyses, with their plans, that the scan builds from \<open>rising_frame\<close> and from
  \<open>steady_frame\<close>.
\<close>

definition rising_pick :: "string \<Rightarrow> analysis" where
  "rising_pick tk =
     \<lparr>ticker = tk, score = 92.5,
      details = Some \<lparr>price = 20, price_change = Fin (100 / 19), trend = ''BULLISH'',
                       momentum_score = 100, volume_score = 90, trend_score = 85\<rparr>,
      plan = Some \<lparr>direction = ''LONG'', entry = 20, stop_loss = 18.6, target = 24.2,
                    risk_reward = 3, timeframe = ''3-10 days'', position_size = ''10-15%'',
                    confidence = ''VERY HIGH''\<rparr>\<rparr>"

definition steady_pick :: "string \<Rightarrow> analysis" where
  "steady_pick tk =
     \<lparr>ticker = tk, score = 77.5,
      details = Some \<lparr>price = 20, price_change = Fin (100 / 19), trend = ''BULLISH'',
                       momentum_score = 100, volume_score = 40, trend_score = 85\<rparr>,
      plan = Some \<lparr>direction = ''LONG'', entry = 20, stop_loss = 18.6, target = 24.2,
                    risk_reward = 3, timeframe = ''3-10 days'', position_size = ''7-10%'',
                    confidence = ''HIGH''\<rparr>\<rparr>"

section \<open>Properties\<close>

subsection \<open>Rounding\<close>

lemma round2_three: "round2 3 = 3"
  by (simp add: round2_def round_half_even_def)

subsection \<open>The trade plan\<close>

lemma generate_trade_plan_total:
  "details a = Some f \<Longrightarrow> \<exists>p. generate_trade_plan a = Inr p"
  by (simp add: generate_trade_plan_def Let_def split: prod.splits)




text \<open>
  C9: confidence and position size are a step function of the combined score:
  at 85 and above VERY HIGH and 10-15%, from 75 up to 85 HIGH and 7-10%, below 75
  MODERATE and 5-7%.
\<close>

theorem trade_plan_confidence_bands:
  assumes "details a = Some f"
  shows "\<exists>p. generate_trade_plan a = Inr p \<and>
           (85 \<le> score a \<longrightarrow>
              confidence p = ''VERY HIGH'' \<and> position_size p = ''10-15%'') \<and>
           (75 \<le> score a \<and> score a < 85 \<longrightarrow>
              confidence p = ''HIGH'' \<and> position_size p = ''7-10%'') \<and>
           (score a < 75 \<longrightarrow>
              confidence p = ''MODERATE'' \<and> position_size p = ''5-7%'')"
  using assms
  by (simp add: generate_trade_plan_def confidence_level_def Let_def split: prod.splits)

theorem trade_plan_confidence_bands_witness:
  "(\<exists>p. generate_trade_plan (example_analysis 100 ''BULLISH'' 85) = Inr p \<and>
        confidence p = ''VERY HIGH'' \<and> position_size p = ''10-15%'') \<and>
   (\<exists>p. generate_trade_plan (example_analysis 100 ''BULLISH'' 84.9) = Inr p \<and>
        confidence p = ''HIGH'' \<and> position_size p = ''7-10%'') \<and>
   (\<exists>p. generate_trade_plan (example_analysis 100 ''BULLISH'' 74.9) = Inr p \<and>
        confidence p = ''MODERATE'' \<and> position_size p = ''5-7%'')"
proof -
  have d: "details (example_analysis 100 ''BULLISH'' sc) =
      Some \<lparr>price = 100, price_change = Fin 0, trend = ''BULLISH'',
            momentum_score = 50, volume_score = 50, trend_score = 50\<rparr>" for sc
    by (simp add: example_analysis_def)
  have sc: "score (example_analysis 100 ''BULLISH'' x) = x" for x
    by (simp add: example_analysis_def)
  show ?thesis
    using trade_plan_confidence_bands [OF d [of 85]]
      trade_plan_confidence_bands [OF d [of "84.9"]]
      trade_plan_confidence_bands [OF d [of "74.9"]]
    by (simp add: sc)
qed

lemma long_levels:
  fixes x :: real assumes "0 < x"
  shows "\<bar>x - x * 0.93\<bar> = 0.07 * x" "\<bar>x * 1.21 - x\<bar> = 0.21 * x"
  using assms by (simp_all add: abs_if algebra_simps)

lemma short_levels:
  fixes x :: real assumes "0 < x"
  shows "\<bar>x - x * 1.07\<bar> = 0.07 * x" "\<bar>x * 0.79 - x\<bar> = 0.21 * x"
  using assms by (simp_all add: abs_if algebra_simps)

text \<open>
  C10: for a strictly positive price the risk is 7% of the price and the reward 21% of
  it in both directions, so the risk is not 0 and the reported risk-reward ratio is 3,
  whatever the price, the score and the direction.
\<close>

theorem risk_reward_is_three:
  assumes "details a = Some f" and "0 < price f"
  shows "\<exists>dir ent stop tgt p.
           plan_levels f = (dir, ent, stop, tgt) \<and>
           \<bar>ent - stop\<bar> = 0.07 * price f \<and> \<bar>tgt - ent\<bar> = 0.21 * price f \<and>
           0 < \<bar>ent - stop\<bar> \<and>
           generate_trade_plan a = Inr p \<and> risk_reward p = 3"
proof (cases "trend f = ''BULLISH''")
  case True
  have lv: "plan_levels f = (''LONG'', price f, price f * 0.93, price f * 1.21)"
    using True by (simp add: plan_levels_def Let_def)
  have rr: "\<exists>p. generate_trade_plan a = Inr p \<and> risk_reward p = 3"
    using assms by (simp add: generate_trade_plan_def lv long_levels Let_def round2_three
        split: prod.splits)
  from rr obtain p where p: "generate_trade_plan a = Inr p" "risk_reward p = 3" by blast
  have pos: "0 < \<bar>price f - price f * 0.93\<bar>"
    using assms(2) by (simp add: long_levels)
  show ?thesis
    using lv long_levels [OF assms(2)] pos p by blast
next
  case False
  have lv: "plan_levels f = (''SHORT'', price f, price f * 1.07, price f * 0.79)"
    using False by (simp add: plan_levels_def Let_def)
  have rr: "\<exists>p. generate_trade_plan a = Inr p \<and> risk_reward p = 3"
    using assms by (simp add: generate_trade_plan_def lv short_levels Let_def round2_three
        split: prod.splits)
  from rr obtain p where p: "generate_trade_plan a = Inr p" "risk_reward p = 3" by blast
  have pos: "0 < \<bar>price f - price f * 1.07\<bar>"
    using assms(2) by (simp add: short_levels)
  show ?thesis
    using lv short_levels [OF assms(2)] pos p by blast
qed

theorem risk_reward_is_three_witness:
  "(0 :: real) < 250 \<and>
   (\<exists>p. generate_trade_plan (example_analysis 250 ''BULLISH'' 90) = Inr p \<and>
        risk_reward p = 3) \<and>
   (\<exists>p. generate_trade_plan (example_analysis 250 ''NEUTRAL'' 60) = Inr p \<and>
        risk_reward p = 3)"
proof -
  have d: "details (example_analysis 250 tr sc) =
      Some \<lparr>price = 250, price_change = Fin 0, trend = tr,
            momentum_score = 50, volume_score = 50, trend_score = 50\<rparr>" for tr sc
    by (simp add: example_analysis_def)
  show ?thesis
    using risk_reward_is_three [OF d [of "''BULLISH''" 90]]
      risk_reward_is_three [OF d [of "''NEUTRAL''" 60]]
    by auto
qed

subsection \<open>Series, positions and means\<close>

lemma length_closes [simp]: "length (closes data) = len data"
  by (simp add: closes_def len_def)

lemma length_volumes [simp]: "length (volumes data) = len data"
  by (simp add: volumes_def len_def)

lemma col_Close_present:
  "''Close'' \<in> set (columns data) \<Longrightarrow> col_Close data = Inr (closes data)"
  by (simp add: col_Close_def closes_def)

lemma col_Volume_present:
  "''Volume'' \<in> set (columns data) \<Longrightarrow> col_Volume data = Inr (volumes data)"
  by (simp add: col_Volume_def volumes_def)

lemma iloc_from_end:
  "0 < k \<Longrightarrow> k \<le> length s \<Longrightarrow> iloc s (- int k) = Inr (from_end s k)"
  by (auto simp add: iloc_def from_end_def nat_diff_distrib')

lemma mean_tail:
  assumes "0 < k" and "k \<le> length xs"
  shows "mean (tail k xs) = trailing_mean k xs"
proof -
  let ?n = "length xs"
  have "sum_list (drop (?n - k) xs) = (\<Sum>i<k. drop (?n - k) xs ! i)"
    using assms by (simp add: sum_list_sum_nth atLeast0LessThan)
  also have "\<dots> = (\<Sum>i<k. xs ! (?n - k + i))"
    using assms by (intro sum.cong) simp_all
  also have "\<dots> = (\<Sum>i<k. xs ! (?n - 1 - i))"
  proof -
    have "(\<Sum>i<k. xs ! (?n - k + i)) = (\<Sum>i<k. xs ! (?n - k + (k - Suc i)))"
      by (rule sum.nat_diff_reindex [symmetric])
    also have "\<dots> = (\<Sum>i<k. xs ! (?n - 1 - i))"
      using assms by (intro sum.cong) (auto intro!: arg_cong [where f = "nth xs"])
    finally show ?thesis .
  qed
  finally show ?thesis
    using assms by (simp add: mean_def tail_def trailing_mean_def)
qed

subsection \<open>The sub-scores\<close>

lemma recent_change_value:
  assumes "''Close'' \<in> set (columns data)" and "5 \<le> len data"
    and "from_end (closes data) 5 \<noteq> 0"
  shows "recent_change_of data =
           Inr (Fin (percent_change (from_end (closes data) 1) (from_end (closes data) 5)))"
proof -
  have i1: "iloc (closes data) (- 1) = Inr (from_end (closes data) 1)"
    using iloc_from_end [of 1 "closes data"] assms(2) by simp
  have i5: "iloc (closes data) (- 5) = Inr (from_end (closes data) 5)"
    using iloc_from_end [of 5 "closes data"] assms(2) by simp
  show ?thesis
    using assms
    by (simp add: recent_change_of_def col_Close_present and_then_def i1 i5 np_div_def
        percent_change_def)
qed

lemma momentum_zero_base:
  assumes "''Close'' \<in> set (columns data)" and "10 \<le> len data"
    and "from_end (closes data) 5 = 0"
  shows "calculate_momentum data = Inr (if from_end (closes data) 1 < 0 then 0 else 100)"
proof -
  have i1: "iloc (closes data) (- 1) = Inr (from_end (closes data) 1)"
    using iloc_from_end [of 1 "closes data"] assms(2) by simp
  have i5: "iloc (closes data) (- 5) = Inr 0"
    using iloc_from_end [of 5 "closes data"] assms(2, 3) by simp
  show ?thesis
    using assms(1, 2)
    by (simp add: calculate_momentum_def recent_change_of_def col_Close_present and_then_def
        i1 i5 np_div_def)
qed

lemma momentum_zero_base_example: "calculate_momentum zero_base_frame = Inr 100"
proof -
  have e: "''Close'' \<in> set (columns zero_base_frame)" "10 \<le> len zero_base_frame"
    "from_end (closes zero_base_frame) 5 = 0" "from_end (closes zero_base_frame) (Suc 0) = 3"
    by (simp_all add: zero_base_frame_def example_frame_def len_def from_end_def closes_def)
  show ?thesis
    using momentum_zero_base [OF e(1-3)] by (simp add: e(4))
qed

text \<open>
  C4, as the claim states it, fails on the lookback: the base of the percent change is
  \<open>Close.iloc[-5]\<close>, the close 4 bars before the latest, not the close 5 bars before it.
  On the closes 100, 100, 100, 100, 50, 100, 100, 100, 100, 110 the score is 70 (base
  100), where the claim's base 50 gives 100.
\<close>

theorem momentum_lookback_counterexample:
  "calculate_momentum lookback_frame = Inr 70 \<and>
   momentum_as_claimed (closes lookback_frame) = 100"
  by (simp add: calculate_momentum_def recent_change_of_def col_Close_def iloc_def
      and_then_def np_div_def momentum_as_claimed_def percent_change_def from_end_def
      closes_def len_def lookback_frame_def example_frame_def)

text \<open>
  C4, amended: with fewer than 10 bars the momentum score is 50; with at least 10 bars
  it is 50 + 2 \<times> the percent change between the latest close and \<open>Close.iloc[-5]\<close>, the
  fifth close counted back from the end with the latest as the first, that is the close
  4 bars before the latest, clamped to [0, 100]. The percent change is defined when that
  close is not 0.
\<close>

theorem momentum_score_formula:
  "(len data < 10 \<longrightarrow> calculate_momentum data = Inr 50) \<and>
   (10 \<le> len data \<and> ''Close'' \<in> set (columns data) \<and> from_end (closes data) 5 \<noteq> 0 \<longrightarrow>
      calculate_momentum data =
        Inr (max 0 (min 100
          (50 + 2 * percent_change (from_end (closes data) 1) (from_end (closes data) 5)))))"
proof (intro conjI impI)
  assume "len data < 10"
  then show "calculate_momentum data = Inr 50"
    by (simp add: calculate_momentum_def)
next
  assume h: "10 \<le> len data \<and> ''Close'' \<in> set (columns data) \<and> from_end (closes data) 5 \<noteq> 0"
  then have "recent_change_of data =
      Inr (Fin (percent_change (from_end (closes data) 1) (from_end (closes data) 5)))"
    by (intro recent_change_value) simp_all
  with h show "calculate_momentum data =
        Inr (max 0 (min 100
          (50 + 2 * percent_change (from_end (closes data) 1) (from_end (closes data) 5))))"
    by (simp add: calculate_momentum_def and_then_def mult.commute)
qed

theorem momentum_score_formula_witness:
  "len short_frame < 10 \<and> calculate_momentum short_frame = Inr 50 \<and>
   10 \<le> len lookback_frame \<and> ''Close'' \<in> set (columns lookback_frame) \<and>
   from_end (closes lookback_frame) 5 = 100 \<and> from_end (closes lookback_frame) 6 = 50 \<and>
   calculate_momentum lookback_frame = Inr 70"
proof -
  have e: "len short_frame = 3" "len lookback_frame = 10"
    "''Close'' \<in> set (columns lookback_frame)"
    "from_end (closes lookback_frame) 5 = 100" "from_end (closes lookback_frame) 6 = 50"
    "from_end (closes lookback_frame) (Suc 0) = 110"
    by (simp_all add: short_frame_def lookback_frame_def example_frame_def len_def
        from_end_def closes_def)
  show ?thesis
    using momentum_score_formula [of short_frame] momentum_score_formula [of lookback_frame]
    by (simp add: e percent_change_def)
qed

text \<open>
  C5: with fewer than 10 bars or no volume column the volume score is 50; otherwise,
  with ratio the mean volume of the trailing 5 bars over the mean volume of the
  trailing 20 bars (over the trailing-5 mean itself below 20 bars, where the ratio is
  1), the score is 50 when the longer average is exactly 0, and else 90 for a ratio
  above 2, 75 above 1.5, 60 above 1 and 40 otherwise.
\<close>

theorem volume_score_thresholds:
  "(len data < 10 \<or> ''Volume'' \<notin> set (columns data) \<longrightarrow> calculate_volume data = Inr 50) \<and>
   (10 \<le> len data \<and> ''Volume'' \<in> set (columns data) \<longrightarrow>
      (let recent = trailing_mean 5 (volumes data);
           longer = (if 20 \<le> len data then trailing_mean 20 (volumes data) else recent);
           ratio = recent / longer
       in (len data < 20 \<and> longer \<noteq> 0 \<longrightarrow> ratio = 1) \<and>
          calculate_volume data =
            Inr (if longer = 0 then 50
                 else if ratio > 2 then 90
                 else if ratio > 1.5 then 75
                 else if ratio > 1 then 60
                 else 40)))"
proof (intro conjI impI)
  assume "len data < 10 \<or> ''Volume'' \<notin> set (columns data)"
  then show "calculate_volume data = Inr 50"
    by (auto simp add: calculate_volume_def)
next
  assume h: "10 \<le> len data \<and> ''Volume'' \<in> set (columns data)"
  have m5: "mean (tail 5 (volumes data)) = trailing_mean 5 (volumes data)"
    using h by (intro mean_tail) simp_all
  have m20: "20 \<le> len data \<Longrightarrow>
      mean (tail 20 (volumes data)) = trailing_mean 20 (volumes data)"
    by (intro mean_tail) simp_all
  show "let recent = trailing_mean 5 (volumes data);
            longer = (if 20 \<le> len data then trailing_mean 20 (volumes data) else recent);
            ratio = recent / longer
        in (len data < 20 \<and> longer \<noteq> 0 \<longrightarrow> ratio = 1) \<and>
           calculate_volume data =
             Inr (if longer = 0 then 50
                  else if ratio > 2 then 90
                  else if ratio > 1.5 then 75
                  else if ratio > 1 then 60
                  else 40)"
    using h
    by (simp add: calculate_volume_def col_Volume_present and_then_def Let_def m5 m20
        volume_ratio_score_def)
qed

theorem volume_score_thresholds_witness:
  "len short_frame < 10 \<and> calculate_volume short_frame = Inr 50 \<and>
   ''Volume'' \<notin> set (columns close_only_frame) \<and>
   calculate_volume close_only_frame = Inr 50 \<and>
   10 \<le> len flat_volume_frame \<and> len flat_volume_frame < 20 \<and>
   ''Volume'' \<in> set (columns flat_volume_frame) \<and>
   trailing_mean 5 (volumes flat_volume_frame) \<noteq> 0 \<and>
   calculate_volume flat_volume_frame = Inr 40 \<and>
   10 \<le> len zero_volume_frame \<and> ''Volume'' \<in> set (columns zero_volume_frame) \<and>
   trailing_mean 5 (volumes zero_volume_frame) = 0 \<and>
   calculate_volume zero_volume_frame = Inr 50 \<and>
   20 \<le> len rising_frame \<and> ''Volume'' \<in> set (columns rising_frame) \<and>
   calculate_volume rising_frame = Inr 90"
proof -
  have e: "len short_frame = 3" "len flat_volume_frame = 12" "len rising_frame = 20"
    "len zero_volume_frame = 12" "''Volume'' \<in> set (columns zero_volume_frame)"
    "''Volume'' \<notin> set (columns close_only_frame)"
    "''Volume'' \<in> set (columns flat_volume_frame)"
    "''Volume'' \<in> set (columns rising_frame)"
    by (simp_all add: short_frame_def flat_volume_frame_def rising_frame_def
        zero_volume_frame_def close_only_frame_def example_frame_def len_def)
  have t: "trailing_mean 5 (volumes flat_volume_frame) = 2"
    "trailing_mean 5 (volumes zero_volume_frame) = 0"
    "trailing_mean 5 (volumes rising_frame) = 10"
    "trailing_mean 20 (volumes rising_frame) = 13 / 4"
    by (simp_all add: trailing_mean_def volumes_def flat_volume_frame_def rising_frame_def
        zero_volume_frame_def example_frame_def lessThan_nat_numeral lessThan_Suc)
  show ?thesis
    using volume_score_thresholds [of short_frame]
      volume_score_thresholds [of close_only_frame]
      volume_score_thresholds [of flat_volume_frame]
      volume_score_thresholds [of zero_volume_frame]
      volume_score_thresholds [of rising_frame]
    by (simp add: e t Let_def)
qed

text \<open>
  C6: with fewer than 20 bars the trend score is 50; with at least 20 bars, for MA10
  and MA20 the 10-bar and 20-bar simple moving averages of the close, it is 85 when
  latest close > MA10 > MA20, 15 when latest close < MA10 < MA20 and 50 in every other
  ordering.
\<close>

theorem trend_score_orderings:
  "(len data < 20 \<longrightarrow> calculate_trend data = Inr 50) \<and>
   (20 \<le> len data \<and> ''Close'' \<in> set (columns data) \<longrightarrow>
      (let latest = from_end (closes data) 1;
           ma10 = trailing_mean 10 (closes data);
           ma20 = trailing_mean 20 (closes data)
       in calculate_trend data =
            Inr (if latest > ma10 \<and> ma10 > ma20 then 85
                 else if latest < ma10 \<and> ma10 < ma20 then 15
                 else 50)))"
proof (intro conjI impI)
  assume "len data < 20"
  then show "calculate_trend data = Inr 50"
    by (simp add: calculate_trend_def)
next
  assume h: "20 \<le> len data \<and> ''Close'' \<in> set (columns data)"
  have m10: "mean (tail 10 (closes data)) = trailing_mean 10 (closes data)"
    using h by (intro mean_tail) simp_all
  have m20: "mean (tail 20 (closes data)) = trailing_mean 20 (closes data)"
    using h by (intro mean_tail) simp_all
  have i1: "iloc (closes data) (- 1) = Inr (from_end (closes data) 1)"
    using iloc_from_end [of 1 "closes data"] h by simp
  show "let latest = from_end (closes data) 1;
            ma10 = trailing_mean 10 (closes data);
            ma20 = trailing_mean 20 (closes data)
        in calculate_trend data =
             Inr (if latest > ma10 \<and> ma10 > ma20 then 85
                  else if latest < ma10 \<and> ma10 < ma20 then 15
                  else 50)"
    using h
    by (simp add: calculate_trend_def col_Close_present and_then_def Let_def m10 m20 i1)
qed

theorem trend_score_orderings_witness:
  "len short_frame < 20 \<and> calculate_trend short_frame = Inr 50 \<and>
   20 \<le> len rising_frame \<and> ''Close'' \<in> set (columns rising_frame) \<and>
   calculate_trend rising_frame = Inr 85 \<and>
   20 \<le> len falling_frame \<and> ''Close'' \<in> set (columns falling_frame) \<and>
   calculate_trend falling_frame = Inr 15 \<and>
   20 \<le> len mixed_frame \<and> ''Close'' \<in> set (columns mixed_frame) \<and>
   calculate_trend mixed_frame = Inr 50"
proof -
  have e: "len short_frame = 3" "len rising_frame = 20" "len falling_frame = 20"
    "len mixed_frame = 20"
    "''Close'' \<in> set (columns rising_frame)" "''Close'' \<in> set (columns falling_frame)"
    "''Close'' \<in> set (columns mixed_frame)"
    by (simp_all add: short_frame_def rising_frame_def falling_frame_def mixed_frame_def
        example_frame_def len_def)
  have l: "from_end (closes rising_frame) (Suc 0) = 20"
    "from_end (closes falling_frame) (Suc 0) = 1"
    "from_end (closes mixed_frame) (Suc 0) = 9"
    by (simp_all add: from_end_def closes_def rising_frame_def falling_frame_def
        mixed_frame_def example_frame_def)
  have t: "trailing_mean 10 (closes rising_frame) = 31 / 2"
    "trailing_mean 20 (closes rising_frame) = 21 / 2"
    "trailing_mean 10 (closes falling_frame) = 11 / 2"
    "trailing_mean 20 (closes falling_frame) = 21 / 2"
    "trailing_mean 10 (closes mixed_frame) = 63 / 10"
    "trailing_mean 20 (closes mixed_frame) = 109 / 10"
    by (simp_all add: trailing_mean_def closes_def rising_frame_def falling_frame_def
        mixed_frame_def example_frame_def lessThan_nat_numeral lessThan_Suc)
  show ?thesis
    using trend_score_orderings [of short_frame] trend_score_orderings [of rising_frame]
      trend_score_orderings [of falling_frame] trend_score_orderings [of mixed_frame]
    by (simp add: e l t Let_def)
qed

subsection \<open>The analysis\<close>

lemma clamp_0_100_range: "0 \<le> clamp_0_100 x \<and> clamp_0_100 x \<le> 100"
  by (cases x) simp_all

lemma recent_change_total:
  assumes "''Close'' \<in> set (columns data)"
  shows "\<exists>x. recent_change_of data = Inr x"
proof (cases "5 \<le> len data")
  case True
  have i1: "iloc (closes data) (- 1) = Inr (from_end (closes data) 1)"
    using iloc_from_end [of 1 "closes data"] True by simp
  have i5: "iloc (closes data) (- 5) = Inr (from_end (closes data) 5)"
    using iloc_from_end [of 5 "closes data"] True by simp
  show ?thesis
    using assms True by (simp add: recent_change_of_def col_Close_present and_then_def i1 i5)
next
  case False
  then show ?thesis by (simp add: recent_change_of_def)
qed

lemma calculate_momentum_range:
  assumes "''Close'' \<in> set (columns data)"
  shows "\<exists>m. calculate_momentum data = Inr m \<and> 0 \<le> m \<and> m \<le> 100"
proof -
  from recent_change_total [OF assms] obtain x where "recent_change_of data = Inr x" ..
  then show ?thesis
    by (simp add: calculate_momentum_def and_then_def clamp_0_100_range)
qed

lemma calculate_volume_range:
  "\<exists>v. calculate_volume data = Inr v \<and> 40 \<le> v \<and> v \<le> 90"
  by (simp add: calculate_volume_def col_Volume_def and_then_def Let_def
      volume_ratio_score_def)

lemma calculate_trend_range:
  assumes "''Close'' \<in> set (columns data)"
  shows "\<exists>t. calculate_trend data = Inr t \<and> 15 \<le> t \<and> t \<le> 85"
proof (cases "20 \<le> len data")
  case True
  have i1: "iloc (closes data) (- 1) = Inr (from_end (closes data) 1)"
    using iloc_from_end [of 1 "closes data"] True by simp
  show ?thesis
    using assms True
    by (simp add: calculate_trend_def col_Close_present and_then_def Let_def i1)
next
  case False
  then show ?thesis by (simp add: calculate_trend_def)
qed

lemma current_price_total:
  assumes "''Close'' \<in> set (columns data)" and "\<not> empty_df data"
  shows "current_price_of data = Inr (from_end (closes data) 1)"
proof -
  have "1 \<le> len data"
    using assms(2) by (cases "rows data") (simp_all add: empty_df_def len_def)
  then have "iloc (closes data) (- 1) = Inr (from_end (closes data) 1)"
    using iloc_from_end [of 1 "closes data"] by simp
  then show ?thesis
    using assms(1) by (simp add: current_price_of_def col_Close_present and_then_def)
qed

lemma determine_trend_total:
  assumes "''Close'' \<in> set (columns data)"
  shows "\<exists>pc tr. determine_trend data = Inr (pc, tr)"
proof (cases "2 \<le> len data")
  case True
  have i1: "iloc (closes data) (- 1) = Inr (from_end (closes data) 1)"
    using iloc_from_end [of 1 "closes data"] True by simp
  have i2: "iloc (closes data) (- 2) = Inr (from_end (closes data) 2)"
    using iloc_from_end [of 2 "closes data"] True by simp
  show ?thesis
    using assms True
    by (simp add: determine_trend_def col_Close_present and_then_def Let_def i1 i2)
next
  case False
  then show ?thesis by (simp add: determine_trend_def)
qed

lemma analyze_stock_without_close:
  assumes "''Close'' \<notin> set (columns data)" and "\<not> empty_df data" and "2 \<le> len data"
  shows "analyze_stock tk data = Inl (KeyError ''Close'')"
proof -
  have c: "col_Close data = Inl (KeyError ''Close'')"
    using assms(1) by (simp add: col_Close_def)
  have d: "determine_trend data = Inl (KeyError ''Close'')"
    using assms(3) by (simp add: determine_trend_def c and_then_def)
  have m: "calculate_momentum data = Inr 50 \<or> calculate_momentum data = Inl (KeyError ''Close'')"
    by (simp add: calculate_momentum_def recent_change_of_def c and_then_def)
  have t: "calculate_trend data = Inr 50 \<or> calculate_trend data = Inl (KeyError ''Close'')"
    by (simp add: calculate_trend_def c and_then_def)
  obtain v where v: "calculate_volume data = Inr v"
    using calculate_volume_range by blast
  show ?thesis
    using assms(1, 2) m t
    by (auto simp add: analyze_stock_def current_price_of_def and_then_def v d)
qed

text \<open>
  On a frame that is empty or has a \<open>Close\<close> column the analysis returns; the combined
  score is 0.4 \<times> momentum + 0.3 \<times> volume + 0.3 \<times> trend on a non-empty frame and 0 on an
  empty one, and it lies within [0, 100].
\<close>

theorem analyze_stock_combined_score:
  assumes "empty_df data \<or> ''Close'' \<in> set (columns data)"
  shows "\<exists>a. analyze_stock tk data = Inr a \<and> 0 \<le> score a \<and> score a \<le> 100 \<and>
           (empty_df data \<longrightarrow> score a = 0) \<and>
           (\<not> empty_df data \<longrightarrow>
              (\<exists>m v t. calculate_momentum data = Inr m \<and> calculate_volume data = Inr v \<and>
                 calculate_trend data = Inr t \<and>
                 score a = 0.4 * m + 0.3 * v + 0.3 * t))"
proof (cases "empty_df data")
  case True
  then show ?thesis by (simp add: analyze_stock_def)
next
  case ne: False
  with assms have cl: "''Close'' \<in> set (columns data)" by simp
  obtain m where m: "calculate_momentum data = Inr m" "0 \<le> m" "m \<le> 100"
    using calculate_momentum_range [OF cl] by blast
  obtain v where v: "calculate_volume data = Inr v" "40 \<le> v" "v \<le> 90"
    using calculate_volume_range by blast
  obtain t where t: "calculate_trend data = Inr t" "15 \<le> t" "t \<le> 85"
    using calculate_trend_range [OF cl] by blast
  obtain pc tr where d: "determine_trend data = Inr (pc, tr)"
    using determine_trend_total [OF cl] by blast
  have a: "analyze_stock tk data =
      Inr \<lparr>ticker = tk, score = m * 0.4 + v * 0.3 + t * 0.3,
           details = Some \<lparr>price = from_end (closes data) 1, price_change = pc, trend = tr,
                            momentum_score = m, volume_score = v, trend_score = t\<rparr>,
           plan = None\<rparr>"
    using ne by (simp add: analyze_stock_def current_price_total [OF cl ne] m v t d
        and_then_def)
  have lo: "0 \<le> m * 0.4 + v * 0.3 + t * 0.3"
    using m v t by simp
  have hi: "m * 0.4 + v * 0.3 + t * 0.3 \<le> 100"
    using m v t by simp
  show ?thesis
    using ne a lo hi m(1) v(1) t(1) by (simp add: mult.commute)
qed

lemma analyze_rising_frame:
  "analyze_stock tk rising_frame =
     Inr \<lparr>ticker = tk, score = 92.5,
          details = Some \<lparr>price = 20, price_change = Fin (100 / 19), trend = ''BULLISH'',
                           momentum_score = 100, volume_score = 90, trend_score = 85\<rparr>,
          plan = None\<rparr>"
  by (simp add: analyze_stock_def empty_df_def current_price_of_def calculate_momentum_def
      recent_change_of_def calculate_volume_def calculate_trend_def determine_trend_def
      col_Close_def col_Volume_def iloc_def tail_def mean_def and_then_def np_div_def
      volume_ratio_score_def len_def rising_frame_def example_frame_def)

theorem analyze_stock_combined_score_witness:
  "empty_df no_bars_frame \<and>
   (\<exists>a. analyze_stock ''NVDA'' no_bars_frame = Inr a \<and> score a = 0) \<and>
   ''Close'' \<in> set (columns rising_frame) \<and> \<not> empty_df rising_frame \<and>
   (\<exists>a. analyze_stock ''NVDA'' rising_frame = Inr a \<and> score a = 92.5 \<and>
        0 \<le> score a \<and> score a \<le> 100)"
proof -
  have e: "empty_df no_bars_frame" "''Close'' \<in> set (columns rising_frame)"
    "\<not> empty_df rising_frame"
    by (simp_all add: no_bars_frame_def rising_frame_def example_frame_def empty_df_def)
  show ?thesis
    using analyze_stock_combined_score [of no_bars_frame "''NVDA''"]
      analyze_stock_combined_score [of rising_frame "''NVDA''"]
    by (auto simp add: e analyze_rising_frame)
qed

text \<open>
  C7: the analysis is to return on every bar sequence. The code guards a missing
  \<open>Close\<close> column where it reads the price (it takes 100), but reads \<open>data['Close']\<close>
  unguarded for the trend label, and for the momentum and trend scores: on a frame of
  two rows without that column \<open>_analyze_stock\<close> raises KeyError.
\<close>

theorem analyze_stock_missing_close_raises:
  "\<not> empty_df no_close_frame \<and> current_price_of no_close_frame = Inr 100 \<and>
   analyze_stock ''NVDA'' no_close_frame = Inl (KeyError ''Close'')"
  by (simp add: analyze_stock_def empty_df_def current_price_of_def calculate_momentum_def
      calculate_volume_def calculate_trend_def determine_trend_def col_Close_def
      and_then_def len_def no_close_frame_def)

lemma analyze_steady_frame:
  "analyze_stock tk steady_frame =
     Inr \<lparr>ticker = tk, score = 77.5,
          details = Some \<lparr>price = 20, price_change = Fin (100 / 19), trend = ''BULLISH'',
                           momentum_score = 100, volume_score = 40, trend_score = 85\<rparr>,
          plan = None\<rparr>"
  by (simp add: analyze_stock_def empty_df_def current_price_of_def calculate_momentum_def
      recent_change_of_def calculate_volume_def calculate_trend_def determine_trend_def
      col_Close_def col_Volume_def iloc_def tail_def mean_def and_then_def np_div_def
      volume_ratio_score_def len_def steady_frame_def example_frame_def)

lemma analyze_short_frame:
  "analyze_stock tk short_frame =
     Inr \<lparr>ticker = tk, score = 50,
          details = Some \<lparr>price = 12, price_change = Fin (100 / 11), trend = ''BULLISH'',
                           momentum_score = 50, volume_score = 50, trend_score = 50\<rparr>,
          plan = None\<rparr>"
  by (simp add: analyze_stock_def empty_df_def current_price_of_def calculate_momentum_def
      recent_change_of_def calculate_volume_def calculate_trend_def determine_trend_def
      col_Close_def col_Volume_def iloc_def tail_def mean_def and_then_def np_div_def
      volume_ratio_score_def len_def short_frame_def example_frame_def)

lemma analyze_stock_ticker: "analyze_stock tk data = Inr a \<Longrightarrow> ticker a = tk"
  by (auto simp add: analyze_stock_def and_then_def Let_def split: if_splits sum.splits prod.splits)

lemma analyze_stock_details:
  "\<not> empty_df data \<Longrightarrow> analyze_stock tk data = Inr a \<Longrightarrow> \<exists>f. details a = Some f"
  by (auto simp add: analyze_stock_def and_then_def Let_def split: sum.splits prod.splits)

subsection \<open>The scan loop\<close>

lemma scan_ticker_appends:
  "scan_ticker self tk results =
     (case scan_ticker self tk [] of Inl e \<Rightarrow> Inl e | Inr c \<Rightarrow> Inr (results @ c))"
  by (simp add: scan_ticker_def split: sum.splits option.splits)

lemma scan_loop_contribution:
  "scan_loop self tks results = results @ concat (map (contribution self) tks)"
proof (induction tks arbitrary: results)
  case Nil
  show ?case by simp
next
  case (Cons tk tks)
  show ?case
  proof (cases "scan_ticker self tk []")
    case (Inl e)
    then have "scan_ticker self tk results = Inl e"
      using scan_ticker_appends [of self tk results] by simp
    with Inl show ?thesis by (simp add: Cons.IH contribution_def)
  next
    case (Inr c)
    then have "scan_ticker self tk results = Inr (results @ c)"
      using scan_ticker_appends [of self tk results] by simp
    with Inr show ?thesis by (simp add: Cons.IH contribution_def)
  qed
qed

lemma scan_loop_engine:
  "data_engine s1 = data_engine s2 \<Longrightarrow> scan_loop s1 tks results = scan_loop s2 tks results"
proof (induction tks arbitrary: results)
  case Nil
  show ?case by simp
next
  case (Cons tk tks)
  have "scan_ticker s1 tk results = scan_ticker s2 tk results"
    using Cons.prems by (simp add: scan_ticker_def)
  then show ?case using Cons by (simp split: sum.splits)
qed

lemma contribution_failed: "fetch_failed self tk \<Longrightarrow> contribution self tk = []"
  by (auto simp add: fetch_failed_def contribution_def scan_ticker_def
      split: sum.splits option.splits)

lemma contribution_raised:
  "scan_ticker self tk results = Inl e \<Longrightarrow> contribution self tk = []"
  using scan_ticker_appends [of self tk results]
  by (simp add: contribution_def split: sum.splits)

lemma contribution_cases:
  "contribution self tk = [] \<or>
   (\<exists>data a p. data_engine self tk = Inr (Some data) \<and> \<not> empty_df data \<and>
      analyze_stock tk data = Inr a \<and> 75 \<le> score a \<and> generate_trade_plan a = Inr p \<and>
      contribution self tk = [a\<lparr>plan := Some p\<rparr>])"
  by (auto simp add: contribution_def scan_ticker_def split: sum.splits option.splits)

lemma contribution_qualifying:
  assumes "data_engine self tk = Inr (Some data)" "\<not> empty_df data"
    "analyze_stock tk data = Inr a" "75 \<le> score a" "generate_trade_plan a = Inr p"
  shows "contribution self tk = [a\<lparr>plan := Some p\<rparr>]"
  using assms by (simp add: contribution_def scan_ticker_def)

lemma contribution_score: "a \<in> set (contribution self tk) \<Longrightarrow> 75 \<le> score a"
  using contribution_cases [of self tk] by auto

lemma contribution_length: "length (contribution self tk) \<le> 1"
  using contribution_cases [of self tk] by auto

lemma length_concat_contribution:
  "length (concat (map (contribution self) tks)) \<le> length tks"
proof (induction tks)
  case Nil
  show ?case by simp
next
  case (Cons tk tks)
  then show ?case using contribution_length [of self tk] by simp
qed

lemma subseq_tickers:
  "subseq (map ticker (concat (map (contribution self) tks))) tks"
proof (induction tks)
  case Nil
  show ?case by simp
next
  case (Cons tk tks)
  from contribution_cases [of self tk] show ?case
  proof
    assume "contribution self tk = []"
    then show ?thesis using Cons.IH by (simp add: list_emb_Cons)
  next
    assume "\<exists>data a p. data_engine self tk = Inr (Some data) \<and> \<not> empty_df data \<and>
      analyze_stock tk data = Inr a \<and> 75 \<le> score a \<and> generate_trade_plan a = Inr p \<and>
      contribution self tk = [a\<lparr>plan := Some p\<rparr>]"
    then obtain data a p where "analyze_stock tk data = Inr a"
      "contribution self tk = [a\<lparr>plan := Some p\<rparr>]" by blast
    then show ?thesis using Cons.IH by (simp add: analyze_stock_ticker)
  qed
qed

lemma sorted_descending:
  "sorted_wrt (\<lambda>a b. score b \<le> score a) (sort_key (\<lambda>x. - score x) xs)"
proof -
  have "sorted (map (\<lambda>x. - score x) (sort_key (\<lambda>x. - score x) xs))"
    by (rule sorted_sort_key)
  then show ?thesis by (simp add: sorted_map)
qed

lemma slice_to_positive: "0 < k \<Longrightarrow> slice_to xs k = take (nat k) xs"
  by (simp add: slice_to_def)

subsection \<open>The scan on the concrete scanners\<close>

lemma frames_not_empty:
  "\<not> empty_df rising_frame" "\<not> empty_df steady_frame" "\<not> empty_df short_frame"
  "empty_df no_bars_frame"
  by (simp_all add: empty_df_def rising_frame_def steady_frame_def short_frame_def
      no_bars_frame_def example_frame_def)

lemma scan_ticker_rising:
  "data_engine self tk = Inr (Some rising_frame) \<Longrightarrow>
     scan_ticker self tk results = Inr (results @ [rising_pick tk])"
  by (simp add: scan_ticker_def frames_not_empty analyze_rising_frame generate_trade_plan_def
      plan_levels_def confidence_level_def round2_def round_half_even_def rising_pick_def)

lemma scan_ticker_steady:
  "data_engine self tk = Inr (Some steady_frame) \<Longrightarrow>
     scan_ticker self tk results = Inr (results @ [steady_pick tk])"
  by (simp add: scan_ticker_def frames_not_empty analyze_steady_frame generate_trade_plan_def
      plan_levels_def confidence_level_def round2_def round_half_even_def steady_pick_def)

lemma scan_ticker_short:
  "data_engine self tk = Inr (Some short_frame) \<Longrightarrow>
     scan_ticker self tk results = Inr results"
  by (simp add: scan_ticker_def frames_not_empty analyze_short_frame)

lemma scan_ticker_failed:
  "data_engine self tk = Inl e \<Longrightarrow> scan_ticker self tk results = Inl e"
  "data_engine self tk = Inr None \<Longrightarrow> scan_ticker self tk results = Inr results"
  "data_engine self tk = Inr (Some no_bars_frame) \<Longrightarrow> scan_ticker self tk results = Inr results"
  by (simp_all add: scan_ticker_def frames_not_empty)

lemma engine_values:
  "example_engine ''BAD'' = Inl DataEngineError"
  "example_engine ''NONE'' = Inr None"
  "example_engine ''EMPTY'' = Inr (Some no_bars_frame)"
  "example_engine ''WEAK'' = Inr (Some short_frame)"
  "example_engine ''TSLA'' = Inr (Some steady_frame)"
  "example_engine ''NVDA'' = Inr (Some rising_frame)"
  "example_engine ''AAPL'' = Inr (Some rising_frame)"
  "example_engine ''MSFT'' = Inr (Some rising_frame)"
  "example_engine ''AMZN'' = Inr (Some rising_frame)"
  by (simp_all add: example_engine_def)

lemma collected_example:
  "collected example_scanner =
     [steady_pick ''TSLA'', rising_pick ''NVDA'', rising_pick ''AAPL'', rising_pick ''MSFT'',
      rising_pick ''AMZN'']"
  by (simp add: collected_def example_scanner_def engine_values scan_ticker_rising
      scan_ticker_steady scan_ticker_short scan_ticker_failed)

lemma pick_scores: "score (rising_pick tk) = 92.5" "score (steady_pick tk) = 77.5"
  by (simp_all add: rising_pick_def steady_pick_def)

lemma scan_example_2:
  "scan_best_opportunities example_scanner 2 = Inr [rising_pick ''NVDA'', rising_pick ''AAPL'']"
  using collected_example
  by (simp add: scan_best_opportunities_def collected_def slice_to_def pick_scores)

lemma scan_three_tickers:
  "scan_best_opportunities three_ticker_scanner 5 =
     Inr [rising_pick ''NVDA'', rising_pick ''AAPL'']"
  by (simp add: scan_best_opportunities_def three_ticker_scanner_def engine_values
      scan_ticker_rising scan_ticker_failed slice_to_def pick_scores)

lemma scan_sixteenth_only:
  "scan_best_opportunities (init_scanner sixteenth_only_engine) 5 = Inr []"
  by (simp add: scan_best_opportunities_def init_scanner_def sixteenth_only_engine_def
      scan_ticker_short slice_to_def)

subsection \<open>The scan\<close>

text \<open>
  C1, as the claim states it, fails: the scan validates nothing and raises nothing.
  Over an empty universe it returns the empty list, and with \<open>max_results = 0\<close> it
  returns the empty list as well.
\<close>

theorem scan_invalid_argument_counterexample:
  "scan_best_opportunities empty_universe_scanner 5 = Inr [] \<and>
   scan_best_opportunities example_scanner 0 = Inr []"
  by (simp add: scan_best_opportunities_def empty_universe_scanner_def slice_to_def)

text \<open>
  C1, amended: the scan never fails. It returns a result for every universe and every
  \<open>max_results\<close>: the empty result over an empty universe, the empty result for
  \<open>max_results = 0\<close>, and for a negative \<open>max_results\<close> the ranked list without its last
  \<open>-max_results\<close> entries.
\<close>

theorem scan_never_fails:
  "\<exists>r. scan_best_opportunities self max_results = Inr r \<and>
       (priority_tickers self = [] \<longrightarrow> r = []) \<and>
       (max_results = 0 \<longrightarrow> r = []) \<and>
       (max_results < 0 \<longrightarrow>
          r = take (length (collected self) - nat (- max_results))
                (sort_key (\<lambda>x. - score x) (collected self)))"
proof -
  let ?sorted = "sort_key (\<lambda>x. - score x) (collected self)"
  have r: "scan_best_opportunities self max_results = Inr (slice_to ?sorted max_results)"
    by (simp add: scan_best_opportunities_def collected_def)
  have e: "priority_tickers self = [] \<Longrightarrow> slice_to ?sorted max_results = []"
    by (simp add: collected_def slice_to_def)
  have z: "max_results = 0 \<Longrightarrow> slice_to ?sorted max_results = []"
    by (simp add: slice_to_def)
  have n: "slice_to ?sorted max_results =
      take (length (collected self) - nat (- max_results)) ?sorted" if "max_results < 0"
  proof -
    have "nat (int (length (collected self)) + max_results) =
        length (collected self) - nat (- max_results)"
      using that by linarith
    with that show ?thesis by (simp add: slice_to_def)
  qed
  show ?thesis using r e z n by blast
qed

theorem scan_never_fails_witness:
  "priority_tickers empty_universe_scanner = [] \<and>
   scan_best_opportunities empty_universe_scanner 5 = Inr [] \<and>
   scan_best_opportunities example_scanner 0 = Inr [] \<and>
   (- 1 :: int) < 0 \<and>
   scan_best_opportunities example_scanner (- 1) =
     Inr [rising_pick ''NVDA'', rising_pick ''AAPL'', rising_pick ''MSFT'',
          rising_pick ''AMZN'']"
  using scan_never_fails [of empty_universe_scanner 5] scan_never_fails [of example_scanner 0]
    scan_never_fails [of example_scanner "- 1"]
  by (auto simp add: empty_universe_scanner_def collected_example pick_scores)

text \<open>
  C2: for a positive \<open>max_results\<close> the result holds only analyses with combined score
  at least 75, is in descending order of combined score, keeps analyses of equal score
  in the order of the universe, and has at most \<open>max_results\<close> entries: as many as
  qualify, up to \<open>max_results\<close>. It is the head of the ranking: the collected analyses
  sorted, then cut, so that no analysis left out scores higher than one kept. With 5 qualifying analyses and \<open>max_results = 2\<close> it
  has exactly 2 entries, the first scoring at least as high as the second.
\<close>

theorem scan_result_ranked:
  assumes "0 < max_results"
  shows "\<exists>r. scan_best_opportunities self max_results = Inr r \<and>
           (\<forall>a \<in> set r. 75 \<le> score a) \<and>
           sorted_wrt (\<lambda>a b. score b \<le> score a) r \<and>
           (\<forall>s. prefix (filter (\<lambda>a. score a = s) r)
                        (filter (\<lambda>a. score a = s) (collected self))) \<and>
           subseq (map ticker (collected self)) (take 15 (priority_tickers self)) \<and>
           length r = min (nat max_results) (length (collected self)) \<and>
           int (length r) \<le> max_results \<and>
           r = take (nat max_results) (sort_key (\<lambda>x. - score x) (collected self)) \<and>
           (\<forall>a \<in> set (drop (nat max_results)
                         (sort_key (\<lambda>x. - score x) (collected self))).
              \<forall>b \<in> set r. score a \<le> score b)"
proof -
  let ?sorted = "sort_key (\<lambda>x. - score x) (collected self)"
  let ?r = "take (nat max_results) ?sorted"
  have r: "scan_best_opportunities self max_results = Inr ?r"
    using assms by (simp add: scan_best_opportunities_def collected_def slice_to_positive)
  have c: "collected self = concat (map (contribution self) (take 15 (priority_tickers self)))"
    by (simp add: collected_def scan_loop_contribution)
  have "\<forall>a \<in> set (collected self). 75 \<le> score a"
    by (auto simp add: c dest: contribution_score)
  then have sc: "\<forall>a \<in> set ?r. 75 \<le> score a"
    by (auto dest: in_set_takeD)
  have so: "sorted_wrt (\<lambda>a b. score b \<le> score a) ?r"
    using sorted_descending [of "collected self"] by (rule sorted_wrt_take)
  have st: "prefix (filter (\<lambda>a. score a = s) ?r)
                   (filter (\<lambda>a. score a = s) (collected self))" for s
  proof -
    have "prefix (filter (\<lambda>a. score a = s) ?r) (filter (\<lambda>a. score a = s) ?sorted)"
      by (intro filter_mono_prefix take_is_prefix)
    moreover have "filter (\<lambda>a. score a = s) ?sorted = filter (\<lambda>a. score a = s) (collected self)"
      using sort_key_stable [of "\<lambda>x. - score x" "- s" "collected self"] by simp
    ultimately show ?thesis by simp
  qed
  have su: "subseq (map ticker (collected self)) (take 15 (priority_tickers self))"
    unfolding c by (rule subseq_tickers)
  have le: "length ?r = min (nat max_results) (length (collected self))"
    by simp
  have le2: "int (length ?r) \<le> max_results"
    using assms by simp
  have "sorted_wrt (\<lambda>a b. score b \<le> score a) (?r @ drop (nat max_results) ?sorted)"
    using sorted_descending [of "collected self"] by simp
  then have dr: "\<forall>a \<in> set (drop (nat max_results) ?sorted). \<forall>b \<in> set ?r. score a \<le> score b"
    unfolding sorted_wrt_append by blast
  show ?thesis
    using r sc so st su le le2 dr by blast
qed

theorem scan_result_ranked_witness:
  "(0 :: int) < 2 \<and>
   collected example_scanner =
     [steady_pick ''TSLA'', rising_pick ''NVDA'', rising_pick ''AAPL'', rising_pick ''MSFT'',
      rising_pick ''AMZN''] \<and>
   (\<exists>r. scan_best_opportunities example_scanner 2 = Inr r \<and>
        r = [rising_pick ''NVDA'', rising_pick ''AAPL''] \<and> length r = 2 \<and>
        score (r ! 1) \<le> score (r ! 0) \<and> (\<forall>a \<in> set r. 75 \<le> score a)) \<and>
   drop 2 (sort_key (\<lambda>x. - score x) (collected example_scanner)) =
     [rising_pick ''MSFT'', rising_pick ''AMZN'', steady_pick ''TSLA'']"
  using scan_result_ranked [of 2 example_scanner]
  by (simp add: collected_example scan_example_2 pick_scores)

text \<open>
  C3: a ticker whose fetch raises or yields \<open>None\<close> or an empty frame is skipped, as
  is one for which anything else in the loop body raises, and the loop gives what it
  gives without that ticker; the scan returns, and the analysis
  of every fetched and qualifying ticker among the first 15 is collected, and returned
  when \<open>max_results\<close> does not truncate it away. Only the first 15 entries of the
  priority list are considered.
\<close>

theorem failed_tickers_are_skipped:
  "(fetch_failed self bad \<longrightarrow>
      scan_loop self (pre @ bad # post) results = scan_loop self (pre @ post) results) \<and>
   (scan_ticker self bad results = Inl e \<longrightarrow>
      scan_loop self (pre @ bad # post) results = scan_loop self (pre @ post) results) \<and>
   (\<exists>r. scan_best_opportunities self max_results = Inr r) \<and>
   (tk \<in> set (take 15 (priority_tickers self)) \<and> data_engine self tk = Inr (Some data) \<and>
    \<not> empty_df data \<and> analyze_stock tk data = Inr a \<and> 75 \<le> score a \<longrightarrow>
      (\<exists>p. generate_trade_plan a = Inr p \<and> a\<lparr>plan := Some p\<rparr> \<in> set (collected self) \<and>
         (int (length (collected self)) \<le> max_results \<longrightarrow>
            (\<exists>r. scan_best_opportunities self max_results = Inr r \<and>
                 a\<lparr>plan := Some p\<rparr> \<in> set r)))) \<and>
   length (collected self) \<le> 15 \<and>
   scan_best_opportunities (self\<lparr>priority_tickers := take 15 (priority_tickers self)\<rparr>)
       max_results = scan_best_opportunities self max_results"
proof (intro conjI impI)
  assume "fetch_failed self bad"
  then show "scan_loop self (pre @ bad # post) results = scan_loop self (pre @ post) results"
    by (simp add: scan_loop_contribution contribution_failed)
next
  assume "scan_ticker self bad results = Inl e"
  then show "scan_loop self (pre @ bad # post) results = scan_loop self (pre @ post) results"
    by (simp add: scan_loop_contribution contribution_raised)
next
  show "\<exists>r. scan_best_opportunities self max_results = Inr r"
    by (simp add: scan_best_opportunities_def)
next
  assume h: "tk \<in> set (take 15 (priority_tickers self)) \<and>
    data_engine self tk = Inr (Some data) \<and> \<not> empty_df data \<and>
    analyze_stock tk data = Inr a \<and> 75 \<le> score a"
  then obtain f where "details a = Some f"
    using analyze_stock_details by blast
  then obtain p where p: "generate_trade_plan a = Inr p"
    using generate_trade_plan_total by blast
  from h have "contribution self tk = [a\<lparr>plan := Some p\<rparr>]"
    using contribution_qualifying [of self tk data a p] p by blast
  with h have m: "a\<lparr>plan := Some p\<rparr> \<in> set (collected self)"
    by (force simp add: collected_def scan_loop_contribution)
  have "int (length (collected self)) \<le> max_results \<Longrightarrow>
      scan_best_opportunities self max_results =
        Inr (sort_key (\<lambda>x. - score x) (collected self))"
    by (simp add: scan_best_opportunities_def collected_def slice_to_def)
  with m p show "\<exists>p. generate_trade_plan a = Inr p \<and> a\<lparr>plan := Some p\<rparr> \<in> set (collected self) \<and>
         (int (length (collected self)) \<le> max_results \<longrightarrow>
            (\<exists>r. scan_best_opportunities self max_results = Inr r \<and>
                 a\<lparr>plan := Some p\<rparr> \<in> set r))"
    by auto
next
  show "length (collected self) \<le> 15"
    using length_concat_contribution [of self "take 15 (priority_tickers self)"]
    by (simp add: collected_def scan_loop_contribution)
next
  show "scan_best_opportunities (self\<lparr>priority_tickers := take 15 (priority_tickers self)\<rparr>)
       max_results = scan_best_opportunities self max_results"
    using scan_loop_engine [of "self\<lparr>priority_tickers := take 15 (priority_tickers self)\<rparr>" self]
    by (simp add: scan_best_opportunities_def)
qed

theorem failed_tickers_are_skipped_witness:
  "fetch_failed three_ticker_scanner ''BAD'' \<and>
   scan_ticker three_ticker_scanner ''BAD'' [] = Inl DataEngineError \<and>
   scan_loop three_ticker_scanner ([''NVDA''] @ ''BAD'' # [''AAPL'']) [] =
     scan_loop three_ticker_scanner ([''NVDA''] @ [''AAPL'']) [] \<and>
   ''AAPL'' \<in> set (take 15 (priority_tickers three_ticker_scanner)) \<and>
   data_engine three_ticker_scanner ''AAPL'' = Inr (Some rising_frame) \<and>
   \<not> empty_df rising_frame \<and>
   (\<exists>a. analyze_stock ''AAPL'' rising_frame = Inr a \<and> 75 \<le> score a) \<and>
   int (length (collected three_ticker_scanner)) \<le> 5 \<and>
   scan_best_opportunities three_ticker_scanner 5 =
     Inr [rising_pick ''NVDA'', rising_pick ''AAPL''] \<and>
   data_engine (init_scanner sixteenth_only_engine) ''CRWD'' = Inr (Some rising_frame) \<and>
   scan_best_opportunities (init_scanner sixteenth_only_engine) 5 = Inr []"
proof -
  have f: "fetch_failed three_ticker_scanner ''BAD''"
    "scan_ticker three_ticker_scanner ''BAD'' [] = Inl DataEngineError"
    by (simp_all add: fetch_failed_def three_ticker_scanner_def engine_values
        scan_ticker_failed)
  have e: "''AAPL'' \<in> set (take 15 (priority_tickers three_ticker_scanner))"
    "data_engine three_ticker_scanner ''AAPL'' = Inr (Some rising_frame)"
    "data_engine (init_scanner sixteenth_only_engine) ''CRWD'' = Inr (Some rising_frame)"
    by (simp_all add: three_ticker_scanner_def engine_values init_scanner_def
        sixteenth_only_engine_def)
  have c: "collected three_ticker_scanner = [rising_pick ''NVDA'', rising_pick ''AAPL'']"
    by (simp add: collected_def three_ticker_scanner_def engine_values scan_ticker_rising
        scan_ticker_failed)
  show ?thesis
    using failed_tickers_are_skipped [of three_ticker_scanner "''BAD''" "[''NVDA'']"
        "[''AAPL'']" "[]" DataEngineError 5 "''AAPL''" rising_frame
        "\<lparr>ticker = ''AAPL'', score = 92.5,
          details = Some \<lparr>price = 20, price_change = Fin (100 / 19), trend = ''BULLISH'',
                           momentum_score = 100, volume_score = 90, trend_score = 85\<rparr>,
          plan = None\<rparr>"]
    by (simp add: f e c frames_not_empty analyze_rising_frame scan_three_tickers
        scan_sixteenth_only)
qed

end
